theory Spec2Isabelle
  imports Complex_Main
begin

section \<open>Tensors\<close>

text \<open>
  The model of \<open>model.py\<close> works on rank-3 tensors \<open>(batch, time, channel)\<close>.  A
  tensor is a nested list of reals: the arithmetic of the source is read over the
  real numbers, so rounding of 32-bit floats is not represented.
\<close>

type_synonym matrix = "real list list"
type_synonym tensor3 = "matrix list"

definition has_shape :: "nat \<Rightarrow> nat \<Rightarrow> nat \<Rightarrow> tensor3 \<Rightarrow> bool" where
  "has_shape b l d t \<longleftrightarrow>
     length t = b \<and> list_all (\<lambda>m. length m = l \<and> list_all (\<lambda>r. length r = d) m) t"

text \<open>\<open>tf.shape(inputs)[1]\<close> and \<open>tf.shape(inputs)[2]\<close> of a non-empty batch.\<close>

definition seq_length_of :: "tensor3 \<Rightarrow> nat" where
  "seq_length_of inputs = (case inputs of [] \<Rightarrow> 0 | m # _ \<Rightarrow> length m)"

definition d_model_of :: "tensor3 \<Rightarrow> nat" where
  "d_model_of inputs =
     (case inputs of [] \<Rightarrow> 0 | m # _ \<Rightarrow> (case m of [] \<Rightarrow> 0 | r # _ \<Rightarrow> length r))"

text \<open>\<open>tf.range(n, dtype=tf.float32)\<close>.\<close>

definition tf_range :: "nat \<Rightarrow> real list" where
  "tf_range n = map real [0..<n]"

text \<open>The slice \<open>xs[0::2]\<close>; \<open>xs[1::2]\<close> is \<open>step2 (tl xs)\<close>.\<close>

fun step2 :: "'a list \<Rightarrow> 'a list" where
  "step2 [] = []"
| "step2 [x] = [x]"
| "step2 (x # y # xs) = x # step2 xs"

text \<open>
  Element-wise addition of a batch and a matrix, the matrix broadcast along the batch
  axis (\<open>inputs + pos_encoding\<close> with shapes \<open>(B, L, D)\<close> and \<open>(L, D)\<close>).
\<close>

definition add_broadcast :: "tensor3 \<Rightarrow> matrix \<Rightarrow> tensor3" where
  "add_broadcast t m = map (\<lambda>x. map2 (\<lambda>r s. map2 (+) r s) x m) t"

section \<open>PositionalEncoding\<close>

text \<open>
  \<open>PositionalEncoding.__init__\<close> only forwards its keyword arguments to the base
  class; the layer object carries nothing but them.
\<close>

record positional_encoding_layer =
  layer_name :: string

text \<open>Line 40 of \<open>model.py\<close>: the angle at a position and a channel.\<close>

definition angle :: "nat \<Rightarrow> real \<Rightarrow> real \<Rightarrow> real" where
  "angle d_model position dimension =
     position / (10000 powr ((2 * of_int \<lfloor>dimension / 2\<rfloor>) / real d_model))"

definition angles :: "nat \<Rightarrow> nat \<Rightarrow> matrix" where
  "angles seq_length d_model =
     map (\<lambda>position. map (\<lambda>dimension. angle d_model position dimension) (tf_range d_model))
       (tf_range seq_length)"

text \<open>Lines 43 to 48: the matrix that is added to the input.\<close>

definition pos_encoding :: "nat \<Rightarrow> nat \<Rightarrow> matrix" where
  "pos_encoding seq_length d_model =
     (let a = angles seq_length d_model;
          sines = map (\<lambda>row. map sin (step2 row)) a;
          cosines = map (\<lambda>row. map cos (step2 (tl row))) a;
          pe = map2 (\<lambda>s c. s @ c) sines cosines
      in map (take d_model) pe)"

definition positional_matrix :: "positional_encoding_layer \<Rightarrow> tensor3 \<Rightarrow> matrix" where
  "positional_matrix self inputs = pos_encoding (seq_length_of inputs) (d_model_of inputs)"

definition PositionalEncoding_call :: "positional_encoding_layer \<Rightarrow> tensor3 \<Rightarrow> tensor3" where
  "PositionalEncoding_call self inputs = add_broadcast inputs (positional_matrix self inputs)"

text \<open>
  The formula of the specification: channel \<open>i\<close> of position \<open>p\<close> holds the sine of
  the angle when \<open>i\<close> is even and the cosine when \<open>i\<close> is odd.
\<close>

definition interleaved_encoding :: "nat \<Rightarrow> nat \<Rightarrow> nat \<Rightarrow> real" where
  "interleaved_encoding d_model p i =
     (if even i then sin (angle d_model (real p) (real i))
      else cos (angle d_model (real p) (real i)))"

section \<open>Errors and Python primitives\<close>

text \<open>
  \<open>IndexError\<close> and \<open>ZeroDivisionError\<close> are Python's built-in exceptions, the only
  ones the construction code of \<open>model.py\<close> can raise by itself.  \<open>ValueError\<close> is
  what the library raises when it refuses the arguments or the input of a layer.
  \<open>ConfigError\<close> and \<open>ShapeMismatchError\<close> are the two errors the specification
  names.
\<close>

datatype error = ConfigError | ShapeMismatchError | IndexError | ZeroDivisionError | ValueError

text \<open>\<open>xs[i]\<close> on a Python list.\<close>

definition subscript :: "'a list \<Rightarrow> int \<Rightarrow> error + 'a" where
  "subscript xs i =
     (if - int (length xs) \<le> i \<and> i < int (length xs)
      then Inr (xs ! nat (i mod int (length xs)))
      else Inl IndexError)"

text \<open>\<open>a // b\<close> on Python integers.\<close>

definition floordiv :: "int \<Rightarrow> int \<Rightarrow> error + int" where
  "floordiv a b = (if b = 0 then Inl ZeroDivisionError else Inr (a div b))"

section \<open>Layers of the library\<close>

text \<open>
  The layers that \<open>model.py\<close> takes from \<open>tensorflow.keras.layers\<close>, each with the
  arguments the source passes.  A value of this type is the layer with its arguments;
  whether the library accepts them is decided by the library (see below).
\<close>

datatype activation = Linear | Relu | Softmax

datatype padding = Valid | Same

datatype keras_layer =
    Conv1D int int activation padding
  | BatchNormalization
  | MaxPooling1D int
  | Dense int activation
  | Dropout real
  | MultiHeadAttention int int
  | LayerNormalization real
  | GlobalAveragePooling1D

type_synonym shape = "int list"

text \<open>
  Modelled from the spec: the output length of the library's convolution and pooling
  layers, which are not in \<open>model.py\<close>.  A boundary-padded stage keeps the length, an
  unpadded one loses \<open>window - 1\<close> positions, and a stride divides what is left,
  rounding up.
\<close>

definition conv_output_length :: "int \<Rightarrow> int \<Rightarrow> padding \<Rightarrow> int \<Rightarrow> int" where
  "conv_output_length input_length window pad stride =
     (let output_length = (case pad of Same \<Rightarrow> input_length
                                     | Valid \<Rightarrow> input_length - window + 1)
      in (output_length + stride - 1) div stride)"

text \<open>
  Modelled from the spec: the shape each library layer gives to its output.
  Convolution, pooling and global pooling need a \<open>(batch, time, channel)\<close> input; a
  dense layer replaces the last axis; normalisation and dropout keep the shape.
  \<open>MaxPooling1D\<close> is called with \<open>pool_size\<close> only, so its stride is the pool size and
  it does not pad.
\<close>

fun output_shape :: "keras_layer \<Rightarrow> shape \<Rightarrow> error + shape" where
  "output_shape (Conv1D filters kernel_size act pad) s =
     (case s of [b, l, c] \<Rightarrow> Inr [b, conv_output_length l kernel_size pad 1, filters]
              | _ \<Rightarrow> Inl ShapeMismatchError)"
| "output_shape BatchNormalization s = Inr s"
| "output_shape (MaxPooling1D pool_size) s =
     (case s of [b, l, c] \<Rightarrow> Inr [b, conv_output_length l pool_size Valid pool_size, c]
              | _ \<Rightarrow> Inl ShapeMismatchError)"
| "output_shape (Dense units act) s =
     (if s = [] then Inl ShapeMismatchError else Inr (butlast s @ [units]))"
| "output_shape (Dropout rate) s = Inr s"
| "output_shape (MultiHeadAttention heads key_dim) s = Inr s"
| "output_shape (LayerNormalization epsilon) s = Inr s"
| "output_shape GlobalAveragePooling1D s =
     (case s of [b, l, c] \<Rightarrow> Inr [b, c] | _ \<Rightarrow> Inl ShapeMismatchError)"

text \<open>
  Modelled from the spec: self-attention called as \<open>attention(query, value)\<close> returns
  a sequence shaped like the query.
\<close>

definition attention_output_shape :: "keras_layer \<Rightarrow> shape \<Rightarrow> shape \<Rightarrow> error + shape" where
  "attention_output_shape layer query val =
     (case (query, val) of
        ([b, t, d], [b', s, d']) \<Rightarrow> if b = b' then Inr [b, t, d] else Inl ShapeMismatchError
      | _ \<Rightarrow> Inl ShapeMismatchError)"

text \<open>
  The shape of \<open>x + y\<close> on tensors: the shapes are aligned at the last axis, and two
  extents fit when they are equal or one of them is 1.  The lists are the reversed
  shapes.
\<close>

fun broadcast_rev :: "shape \<Rightarrow> shape \<Rightarrow> error + shape" where
  "broadcast_rev [] ys = Inr ys"
| "broadcast_rev xs [] = Inr xs"
| "broadcast_rev (x # xs) (y # ys) =
     (if x = y \<or> y = 1 then map_sum id ((#) x) (broadcast_rev xs ys)
      else if x = 1 then map_sum id ((#) y) (broadcast_rev xs ys)
      else Inl ShapeMismatchError)"

definition broadcast_shapes :: "shape \<Rightarrow> shape \<Rightarrow> error + shape" where
  "broadcast_shapes s t = map_sum id rev (broadcast_rev (rev s) (rev t))"

text \<open>Operations on shapes pass an earlier error on.\<close>

definition on_shape :: "(shape \<Rightarrow> error + shape) \<Rightarrow> error + shape \<Rightarrow> error + shape" where
  "on_shape f r = (case r of Inl e \<Rightarrow> Inl e | Inr s \<Rightarrow> f s)"

definition on_shapes ::
  "(shape \<Rightarrow> shape \<Rightarrow> error + shape) \<Rightarrow> error + shape \<Rightarrow> error + shape \<Rightarrow> error + shape" where
  "on_shapes f r1 r2 =
     (case r1 of Inl e \<Rightarrow> Inl e
               | Inr s1 \<Rightarrow> (case r2 of Inl e \<Rightarrow> Inl e | Inr s2 \<Rightarrow> f s1 s2))"

fun run_sequential :: "keras_layer list \<Rightarrow> error + shape \<Rightarrow> error + shape" where
  "run_sequential [] r = r"
| "run_sequential (layer # rest) r = run_sequential rest (on_shape (output_shape layer) r)"

section \<open>TransformerBlock\<close>

text \<open>
  The attributes \<open>TransformerBlock.__init__\<close> sets.
\<close>

record transformer_block =
  embed_dim :: int
  num_heads :: int
  ff_dim :: int
  dropout_rate :: real
  attention :: keras_layer
  ffn :: "keras_layer list"
  layernorm1 :: keras_layer
  layernorm2 :: keras_layer
  dropout1 :: keras_layer
  dropout2 :: keras_layer

datatype layer =
    Keras keras_layer
  | PositionalEncoding positional_encoding_layer
  | TransformerBlock transformer_block

text \<open>
  What the library accepts is not written in \<open>model.py\<close>; it is a parameter of
  construction.  \<open>accepts_input s\<close> says that \<open>Input(shape=s)\<close> is accepted,
  \<open>constructs l\<close> that the constructor of the layer \<open>l\<close> accepts its arguments, and
  \<open>applies l s\<close> that the layer \<open>l\<close> accepts a symbolic input of shape \<open>s\<close> when the
  model is wired.  A refusal is a \<open>ValueError\<close>.
\<close>

record library =
  accepts_input :: "shape \<Rightarrow> bool"
  constructs :: "keras_layer \<Rightarrow> bool"
  applies :: "layer \<Rightarrow> shape \<Rightarrow> bool"

text \<open>
  \<open>TransformerBlock.__init__\<close>.  The only computation of its own is
  \<open>embed_dim // num_heads\<close>, the key width handed to the attention layer; there is no
  test of the remainder.  Every sub-layer is constructed by the library, which may
  refuse it.
\<close>

definition TransformerBlock_init ::
  "library \<Rightarrow> int \<Rightarrow> int \<Rightarrow> int \<Rightarrow> real \<Rightarrow> error + transformer_block" where
  "TransformerBlock_init lib embed_dim' num_heads' ff_dim' dropout_rate' =
     (case floordiv embed_dim' num_heads' of
        Inl e \<Rightarrow> Inl e
      | Inr key_dim \<Rightarrow>
          if constructs lib (MultiHeadAttention num_heads' key_dim)
             \<and> constructs lib (Dense ff_dim' Relu)
             \<and> constructs lib (Dense embed_dim' Linear)
             \<and> constructs lib (LayerNormalization (1 / 10 ^ 6))
             \<and> constructs lib (Dropout dropout_rate')
          then
            Inr \<lparr>embed_dim = embed_dim',
                 num_heads = num_heads',
                 ff_dim = ff_dim',
                 dropout_rate = dropout_rate',
                 attention = MultiHeadAttention num_heads' key_dim,
                 ffn = [Dense ff_dim' Relu, Dense embed_dim' Linear],
                 layernorm1 = LayerNormalization (1 / 10 ^ 6),
                 layernorm2 = LayerNormalization (1 / 10 ^ 6),
                 dropout1 = Dropout dropout_rate',
                 dropout2 = Dropout dropout_rate'\<rparr>
          else Inl ValueError)"

text \<open>
  \<open>TransformerBlock.call\<close> applies the sub-layers of the block in a fixed order.  The
  record below holds what each sub-layer does to a value of type \<open>'t\<close>, so that the one
  definition of \<open>call\<close> can be read on tensors and on shapes.
\<close>

record 't sublayers =
  call_attention :: "'t \<Rightarrow> 't \<Rightarrow> 't"
  call_dropout1 :: "'t \<Rightarrow> bool \<Rightarrow> 't"
  call_layernorm1 :: "'t \<Rightarrow> 't"
  call_ffn :: "'t \<Rightarrow> 't"
  call_dropout2 :: "'t \<Rightarrow> bool \<Rightarrow> 't"
  call_layernorm2 :: "'t \<Rightarrow> 't"
  plus_op :: "'t \<Rightarrow> 't \<Rightarrow> 't"

text \<open>
  Lines 95 to 104.  The argument \<open>training\<close> has the default \<open>False\<close>: a call that
  omits it is the call with \<open>None\<close> here.
\<close>

definition TransformerBlock_call :: "'t sublayers \<Rightarrow> 't \<Rightarrow> bool option \<Rightarrow> 't" where
  "TransformerBlock_call self inputs training_arg =
     (let training = (case training_arg of None \<Rightarrow> False | Some flag \<Rightarrow> flag);
          attention_output = call_attention self inputs inputs;
          attention_output = call_dropout1 self attention_output training;
          x = call_layernorm1 self (plus_op self inputs attention_output);
          ffn_output = call_ffn self x;
          ffn_output = call_dropout2 self ffn_output training
      in call_layernorm2 self (plus_op self x ffn_output))"

text \<open>The sub-layers of a block, read on shapes.\<close>

definition shape_sublayers :: "transformer_block \<Rightarrow> (error + shape) sublayers" where
  "shape_sublayers self =
     \<lparr>call_attention = on_shapes (attention_output_shape (attention self)),
      call_dropout1 = (\<lambda>r training. on_shape (output_shape (dropout1 self)) r),
      call_layernorm1 = on_shape (output_shape (layernorm1 self)),
      call_ffn = run_sequential (ffn self),
      call_dropout2 = (\<lambda>r training. on_shape (output_shape (dropout2 self)) r),
      call_layernorm2 = on_shape (output_shape (layernorm2 self)),
      plus_op = on_shapes broadcast_shapes\<rparr>"

text \<open>
  Modelled from the spec: the library's dropout layer, which is not in \<open>model.py\<close>.  It
  is active only in training mode, where it zeroes the entries the mask does not keep
  and rescales the others, and it is the identity in inference mode.
\<close>

definition Dropout_call :: "real \<Rightarrow> bool list list list \<Rightarrow> tensor3 \<Rightarrow> bool \<Rightarrow> tensor3" where
  "Dropout_call rate keep_mask x training =
     (if training
      then map2 (map2 (map2 (\<lambda>keep v. if keep then v / (1 - rate) else 0))) keep_mask x
      else x)"

definition tensor_add :: "tensor3 \<Rightarrow> tensor3 \<Rightarrow> tensor3" where
  "tensor_add x y = map2 (map2 (map2 (+))) x y"

text \<open>
  The sub-layers of a block, read on tensors.  What attention, the feed-forward stack
  and layer normalisation compute depends on weights the source does not fix: \<open>lib\<close>
  and \<open>lib_attention\<close> stand for them.  The two masks are the random draws of the two
  dropout layers.
\<close>

definition keras_call ::
  "(keras_layer \<Rightarrow> tensor3 \<Rightarrow> tensor3) \<Rightarrow> bool list list list \<Rightarrow> keras_layer \<Rightarrow> tensor3 \<Rightarrow> bool
     \<Rightarrow> tensor3" where
  "keras_call lib keep_mask layer x training =
     (case layer of Dropout rate \<Rightarrow> Dropout_call rate keep_mask x training | _ \<Rightarrow> lib layer x)"

definition value_sublayers ::
  "(keras_layer \<Rightarrow> tensor3 \<Rightarrow> tensor3) \<Rightarrow> (keras_layer \<Rightarrow> tensor3 \<Rightarrow> tensor3 \<Rightarrow> tensor3)
     \<Rightarrow> bool list list list \<Rightarrow> bool list list list \<Rightarrow> transformer_block \<Rightarrow> tensor3 sublayers" where
  "value_sublayers lib lib_attention mask1 mask2 self =
     \<lparr>call_attention = lib_attention (attention self),
      call_dropout1 = keras_call lib mask1 (dropout1 self),
      call_layernorm1 = lib (layernorm1 self),
      call_ffn = (\<lambda>x. fold lib (ffn self) x),
      call_dropout2 = keras_call lib mask2 (dropout2 self),
      call_layernorm2 = lib (layernorm2 self),
      plus_op = tensor_add\<rparr>"

section \<open>Layers on shapes\<close>

text \<open>
  \<open>PositionalEncoding.call\<close> on shapes: it reads axes 1 and 2 of its input and adds a
  matrix of that shape to it.
\<close>

definition PositionalEncoding_shape :: "shape \<Rightarrow> error + shape" where
  "PositionalEncoding_shape s =
     (case s of [b, l, d] \<Rightarrow> broadcast_shapes [b, l, d] [l, d]
              | _ \<Rightarrow> Inl ShapeMismatchError)"

fun layer_shape :: "layer \<Rightarrow> shape \<Rightarrow> error + shape" where
  "layer_shape (Keras l) s = output_shape l s"
| "layer_shape (PositionalEncoding self) s = PositionalEncoding_shape s"
| "layer_shape (TransformerBlock self) s =
     TransformerBlock_call (shape_sublayers self) (Inr s) None"

fun run_layers :: "layer list \<Rightarrow> error + shape \<Rightarrow> error + shape" where
  "run_layers [] r = r"
| "run_layers (l # rest) r = run_layers rest (on_shape (layer_shape l) r)"

section \<open>The model\<close>

datatype optimizer = Adam real

datatype metric = MetricName string | TopKCategoricalAccuracy nat string

record training_config =
  optimizer :: optimizer
  loss :: string
  metrics :: "metric list"

text \<open>
  A model: the declared shape of one input example, the named layers in the order
  they are applied, the name of the model, and what \<open>compile\<close> has declared.
\<close>

record asl_model =
  input_shape :: shape
  pipeline :: "(string \<times> layer) list"
  model_name :: string
  compiled :: "training_config option"

text \<open>
  Constructing a library layer, and applying a layer to the symbolic tensor that
  \<open>build_asl_model\<close> threads through the layers (\<open>x = layer(x)\<close>).  The batch axis of
  that tensor is unknown; its extent is written \<open>-1\<close>.
\<close>

definition new_layer :: "library \<Rightarrow> keras_layer \<Rightarrow> error + layer" where
  "new_layer lib l = (if constructs lib l then Inr (Keras l) else Inl ValueError)"

definition call_layer :: "library \<Rightarrow> layer \<Rightarrow> shape \<Rightarrow> error + shape" where
  "call_layer lib l x = (if applies lib l x then layer_shape l x else Inl ValueError)"

definition unknown_batch :: int where
  "unknown_batch = - 1"

text \<open>
  The layers are constructed and applied one after the other; the first failure ends
  the construction.  Each step is the name of the layer and the outcome of its
  constructor.
\<close>

fun assemble ::
  "library \<Rightarrow> (string \<times> (error + layer)) list \<Rightarrow> shape \<Rightarrow> error + (string \<times> layer) list" where
  "assemble lib [] x = Inr []"
| "assemble lib ((name, made) # rest) x =
     (case made of
        Inl e \<Rightarrow> Inl e
      | Inr l \<Rightarrow>
          (case call_layer lib l x of
             Inl e \<Rightarrow> Inl e
           | Inr x' \<Rightarrow> map_sum id ((#) (name, l)) (assemble lib rest x')))"

text \<open>
  The layers \<open>build_asl_model\<close> constructs, in the order of the source, each with its
  name and the outcome of its constructor.  Of its own the source reads
  \<open>cnn_filters[0]\<close> and \<open>cnn_filters[1]\<close> and constructs the attention block from
  \<open>transformer_dim\<close> and \<open>transformer_heads\<close>; every other argument is handed to the
  library unexamined.
\<close>

definition layer_steps ::
  "library \<Rightarrow> int \<Rightarrow> int list \<Rightarrow> int \<Rightarrow> int \<Rightarrow> int \<Rightarrow> real \<Rightarrow> (string \<times> (error + layer)) list" where
  "layer_steps lib num_classes cnn_filters transformer_heads transformer_dim ff_dim'
     dropout_rate' =
     [(''conv1d_1'',
         (case subscript cnn_filters 0 of
            Inl e \<Rightarrow> Inl e
          | Inr filters \<Rightarrow> new_layer lib (Conv1D filters 3 Relu Same))),
      (''bn_1'', new_layer lib BatchNormalization),
      (''conv1d_2'',
         (case subscript cnn_filters 1 of
            Inl e \<Rightarrow> Inl e
          | Inr filters \<Rightarrow> new_layer lib (Conv1D filters 3 Relu Same))),
      (''bn_2'', new_layer lib BatchNormalization),
      (''maxpool'', new_layer lib (MaxPooling1D 2)),
      (''projection'', new_layer lib (Dense transformer_dim Linear)),
      (''positional_encoding'',
         Inr (PositionalEncoding \<lparr>layer_name = ''positional_encoding''\<rparr>)),
      (''pos_dropout'', new_layer lib (Dropout dropout_rate')),
      (''transformer_block'',
         map_sum id TransformerBlock
           (TransformerBlock_init lib transformer_dim transformer_heads ff_dim' dropout_rate')),
      (''global_avg_pool'', new_layer lib GlobalAveragePooling1D),
      (''dense_1'', new_layer lib (Dense 256 Relu)),
      (''dropout_1'', new_layer lib (Dropout dropout_rate')),
      (''dense_2'', new_layer lib (Dense 128 Relu)),
      (''dropout_2'', new_layer lib (Dropout dropout_rate')),
      (''output'', new_layer lib (Dense num_classes Softmax))]"

text \<open>
  \<open>build_asl_model\<close>: the input is declared, the layers are constructed and applied
  in turn, and the model is made of them.
\<close>

definition build_asl_model ::
  "library \<Rightarrow> int \<Rightarrow> int \<Rightarrow> int \<Rightarrow> int list \<Rightarrow> int \<Rightarrow> int \<Rightarrow> int \<Rightarrow> real
     \<Rightarrow> error + asl_model" where
  "build_asl_model lib num_frames num_landmarks num_classes cnn_filters transformer_heads
     transformer_dim ff_dim' dropout_rate' =
     (if \<not> accepts_input lib [num_frames, num_landmarks] then Inl ValueError
      else
        (case assemble lib
                (layer_steps lib num_classes cnn_filters transformer_heads transformer_dim
                   ff_dim' dropout_rate')
                [unknown_batch, num_frames, num_landmarks] of
           Inl e \<Rightarrow> Inl e
         | Inr layers \<Rightarrow>
             Inr \<lparr>input_shape = [num_frames, num_landmarks],
                  pipeline = layers,
                  model_name = ''ASL_CNN_Transformer'',
                  compiled = None\<rparr>))"

text \<open>\<open>compile_model\<close>, with the default of \<open>learning_rate\<close> written out by the caller.\<close>

definition compile_model :: "asl_model \<Rightarrow> real \<Rightarrow> asl_model" where
  "compile_model model learning_rate =
     model\<lparr>compiled :=
       Some \<lparr>optimizer = Adam learning_rate,
             loss = ''categorical_crossentropy'',
             metrics = [MetricName ''accuracy'',
                        TopKCategoricalAccuracy 5 ''top5_accuracy'']\<rparr>\<rparr>"

text \<open>
  Modelled from the spec: the library resolves the metric name \<open>accuracy\<close> against the
  loss; under categorical cross-entropy it is top-1 categorical accuracy.  The result
  is the \<open>k\<close> of the top-\<open>k\<close> categorical accuracy reported.
\<close>

definition resolve_metric :: "string \<Rightarrow> metric \<Rightarrow> nat option" where
  "resolve_metric loss_name m =
     (case m of
        MetricName n \<Rightarrow>
          if n = ''accuracy'' \<and> loss_name = ''categorical_crossentropy'' then Some 1 else None
      | TopKCategoricalAccuracy k n \<Rightarrow> Some k)"

section \<open>Forward evaluation on shapes\<close>

text \<open>
  Modelled from the spec: the library compares a batch with the declared input shape
  before it evaluates the layers; the check is not in \<open>model.py\<close>.  A batch whose frame
  count or landmark width differs is refused with \<open>ShapeMismatchError\<close> and nothing
  is evaluated.
\<close>

definition predict_shape :: "asl_model \<Rightarrow> shape \<Rightarrow> error + shape" where
  "predict_shape model batch =
     (case batch of
        [] \<Rightarrow> Inl ShapeMismatchError
      | b # example \<Rightarrow>
          if example = input_shape model
          then run_layers (map snd (pipeline model)) (Inr batch)
          else Inl ShapeMismatchError)"

text \<open>The first five layers of the pipeline: the two convolution stages and the pooling.\<close>

definition local_feature_extractor :: "asl_model \<Rightarrow> layer list" where
  "local_feature_extractor model = take 5 (map snd (pipeline model))"

section \<open>The classification head on values\<close>

text \<open>
  Modelled from the spec: the normalised exponential, and a dense layer of the
  library with its weight matrix and bias.
\<close>

definition softmax :: "real list \<Rightarrow> real list" where
  "softmax z = map (\<lambda>v. exp v / sum_list (map exp z)) z"

definition activation_call :: "activation \<Rightarrow> real list \<Rightarrow> real list" where
  "activation_call act z =
     (case act of Linear \<Rightarrow> z | Relu \<Rightarrow> map (max 0) z | Softmax \<Rightarrow> softmax z)"

definition Dense_call :: "int \<Rightarrow> activation \<Rightarrow> real list list \<Rightarrow> real list \<Rightarrow> real list \<Rightarrow> real list" where
  "Dense_call units act weights bias x =
     activation_call act
       (map (\<lambda>j. bias ! j + (\<Sum>i < length x. x ! i * weights ! i ! j)) [0..<nat units])"

text \<open>
  Modelled from the spec: forward evaluation in inference mode on values.  Each example
  is compared with the declared input shape first.  The examples of a batch are
  evaluated independently of each other.  What the layers before the output layer
  compute depends on weights the source does not fix: \<open>hidden_value\<close> stands for it,
  and \<open>output_weights\<close> and \<open>output_bias\<close> are the parameters of the output layer.
\<close>

record numerics =
  hidden_value :: "layer list \<Rightarrow> matrix \<Rightarrow> real list"
  output_weights :: "real list list"
  output_bias :: "real list"

definition example_fits :: "shape \<Rightarrow> matrix \<Rightarrow> bool" where
  "example_fits s m =
     (case s of
        [l, d] \<Rightarrow> int (length m) = l \<and> list_all (\<lambda>r. int (length r) = d) m
      | _ \<Rightarrow> False)"

definition example_value :: "numerics \<Rightarrow> layer list \<Rightarrow> matrix \<Rightarrow> real list" where
  "example_value num layers example =
     (case rev layers of
        Keras (Dense units act) # hidden \<Rightarrow>
          Dense_call units act (output_weights num) (output_bias num)
            (hidden_value num (rev hidden) example)
      | _ \<Rightarrow> hidden_value num layers example)"

definition predict :: "numerics \<Rightarrow> asl_model \<Rightarrow> tensor3 \<Rightarrow> error + matrix" where
  "predict num model batch =
     (if list_all (example_fits (input_shape model)) batch
      then Inr (map (example_value num (map snd (pipeline model))) batch)
      else Inl ShapeMismatchError)"

section \<open>Configurations the specification calls valid\<close>

text \<open>
  The invariants of a Configuration in the specification: the embedding width is a
  multiple of the number of heads, the dropout rate lies in \<open>[0, 1)\<close>, there is at least
  one filter width, and there is at least one class.  Python's \<open>%\<close> has no value for a
  zero divisor, so zero heads is not valid.
\<close>

definition valid_configuration :: "int \<Rightarrow> int list \<Rightarrow> int \<Rightarrow> int \<Rightarrow> real \<Rightarrow> bool" where
  "valid_configuration num_classes cnn_filter_widths attention_heads embedding_dim dropout \<longleftrightarrow>
     attention_heads \<noteq> 0 \<and> embedding_dim mod attention_heads = 0
     \<and> 0 \<le> dropout \<and> dropout < 1
     \<and> cnn_filter_widths \<noteq> []
     \<and> 0 < num_classes"

section \<open>A library for the examples\<close>

text \<open>
  The theorems below hold for every library.  Examples are evaluated at this one: it
  refuses a size that is not positive and a rate outside \<open>[0, 1]\<close>, and it refuses to
  pool a sequence shorter than the pooling window.
\<close>

definition checking_library :: library where
  "checking_library =
     \<lparr>accepts_input = list_all (\<lambda>n. 0 < n),
      constructs =
        (\<lambda>l. case l of
                Conv1D filters kernel_size act pad \<Rightarrow> 0 < filters \<and> 0 < kernel_size
              | MaxPooling1D pool_size \<Rightarrow> 0 < pool_size
              | Dense units act \<Rightarrow> 0 < units
              | Dropout rate \<Rightarrow> 0 \<le> rate \<and> rate \<le> 1
              | MultiHeadAttention heads key_dim \<Rightarrow> 0 < heads \<and> 0 < key_dim
              | _ \<Rightarrow> True),
      applies =
        (\<lambda>l s. case l of
                  Keras (MaxPooling1D pool_size) \<Rightarrow>
                    (case s of [b, n, c] \<Rightarrow> pool_size \<le> n | _ \<Rightarrow> False)
                | _ \<Rightarrow> True)\<rparr>"

section \<open>Facts about the positional matrix\<close>

lemma sqrt_10000: "sqrt 10000 = 100"
  using real_sqrt_abs [of 100] by simp

lemma powr_half_10000: "(10000::real) powr (1/2) = 100"
  by (simp add: powr_half_sqrt sqrt_10000)

lemma cos_one_ge_half: "1/2 \<le> cos (1::real)"
proof -
  have "\<bar>sin (1/2 :: real)\<bar> \<le> 1/2"
    using abs_sin_x_le_abs_x [of "1/2"] by simp
  then have "(sin (1/2 :: real))\<^sup>2 \<le> (1/2)\<^sup>2"
    by (metis abs_le_square_iff abs_of_nonneg zero_le_divide_1_iff zero_le_numeral) 
  moreover have "cos (1::real) = 1 - 2 * (sin (1/2))\<^sup>2"
    using cos_double_sin [of "1/2 :: real"] by simp
  ultimately show ?thesis by (simp add: power2_eq_square)
qed

lemma sin_hundredth_neq_cos_one: "sin (1/100 :: real) \<noteq> cos 1"
proof -
  have "sin (1/100 :: real) \<le> 1/100" by (rule sin_x_le_x) simp
  then show ?thesis using cos_one_ge_half by linarith
qed

lemma length_step2: "length (step2 xs) = (length xs + 1) div 2"
  by (induction xs rule: step2.induct) auto

lemma nth_step2: "i < (length xs + 1) div 2 \<Longrightarrow> step2 xs ! i = xs ! (2 * i)"
proof (induction xs arbitrary: i rule: step2.induct)
  case 1
  then show ?case by simp
next
  case (2 x)
  then show ?case by simp
next
  case (3 x y xs)
  then show ?case by (cases i) auto
qed

lemma length_angles: "length (angles l d) = l"
  by (simp add: angles_def tf_range_def)

lemma nth_angles:
  "p < l \<Longrightarrow> angles l d ! p = map (\<lambda>i. angle d (real p) (real i)) [0..<d]"
  by (simp add: angles_def tf_range_def comp_def)

lemma length_pos_encoding: "length (pos_encoding l d) = l"
  by (simp add: pos_encoding_def Let_def length_angles)

lemma step2_map_upt:
  "step2 (map f [0..<d]) = map (\<lambda>i. f (2 * i)) [0..<(d + 1) div 2]"
proof (rule nth_equalityI)
  show "length (step2 (map f [0..<d])) = length (map (\<lambda>i. f (2 * i)) [0..<(d + 1) div 2])"
    by (simp add: length_step2)
next
  fix i
  assume "i < length (step2 (map f [0..<d]))"
  then have i: "i < (d + 1) div 2"
    by (simp add: length_step2)
  then have "2 * i < d" by linarith
  with i show "step2 (map f [0..<d]) ! i = map (\<lambda>i. f (2 * i)) [0..<(d + 1) div 2] ! i"
    by (simp add: nth_step2)
qed

lemma step2_tl_map_upt:
  "step2 (tl (map f [0..<d])) = map (\<lambda>i. f (2 * i + 1)) [0..<d div 2]"
proof (rule nth_equalityI)
  show "length (step2 (tl (map f [0..<d]))) = length (map (\<lambda>i. f (2 * i + 1)) [0..<d div 2])"
    by (simp add: length_step2)
next
  fix i
  assume "i < length (step2 (tl (map f [0..<d])))"
  then have i: "i < d div 2"
    by (simp add: length_step2)
  then have lt: "2 * i + 1 < d" by linarith
  from i have "step2 (tl (map f [0..<d])) ! i = tl (map f [0..<d]) ! (2 * i)"
    by (simp add: nth_step2 length_step2)
  also from lt have "\<dots> = f (2 * i + 1)"
    by (simp add: nth_tl)
  finally show "step2 (tl (map f [0..<d])) ! i = map (\<lambda>i. f (2 * i + 1)) [0..<d div 2] ! i"
    using i by simp
qed

lemma nth_pos_encoding_row:
  assumes "p < l"
  shows "pos_encoding l d ! p =
           map (\<lambda>i. sin (angle d (real p) (real (2 * i)))) [0..<(d + 1) div 2]
         @ map (\<lambda>i. cos (angle d (real p) (real (2 * i + 1)))) [0..<d div 2]"
proof -
  let ?row = "map (\<lambda>i. angle d (real p) (real i)) [0..<d]"
  have "pos_encoding l d ! p = take d (map sin (step2 ?row) @ map cos (step2 (tl ?row)))"
    using assms by (simp add: pos_encoding_def Let_def length_angles nth_angles)
  also have "\<dots> = map sin (step2 ?row) @ map cos (step2 (tl ?row))"
    by (simp add: length_step2)
  finally show ?thesis
    by (simp add: step2_map_upt step2_tl_map_upt comp_def)
qed

lemma length_pos_encoding_row: "p < l \<Longrightarrow> length (pos_encoding l d ! p) = d"
  by (simp add: nth_pos_encoding_row)

lemma nth_pos_encoding:
  assumes "p < l" "i < d"
  shows "pos_encoding l d ! p ! i =
           (if i < (d + 1) div 2 then sin (angle d (real p) (real (2 * i)))
            else cos (angle d (real p) (real (2 * (i - (d + 1) div 2) + 1))))"
proof (cases "i < (d + 1) div 2")
  case True
  then show ?thesis using assms by (simp add: nth_pos_encoding_row nth_append)
next
  case False
  then have "i - (d + 1) div 2 < d div 2" using assms by linarith
  with False show ?thesis using assms by (simp add: nth_pos_encoding_row nth_append)
qed

lemma upt4: "[0..<4] = [0,1,2,3]" by (simp add: upt_rec)
lemma upt2: "[0..<2] = [0,1]" by (simp add: upt_rec)

lemma has_shape_reads:
  assumes "has_shape b l d x" "0 < b" "0 < l"
  shows "seq_length_of x = l" and "d_model_of x = d"
proof -
  from assms obtain m ms where x: "x = m # ms"
    by (cases x) (auto simp add: has_shape_def)
  with assms have m: "length m = l" and rows: "list_all (\<lambda>r. length r = d) m"
    by (auto simp add: has_shape_def)
  from m assms obtain r rs where mr: "m = r # rs"
    by (cases m) auto
  with rows have "length r = d" by simp
  with x m mr show "seq_length_of x = l" and "d_model_of x = d"
    by (auto simp add: seq_length_of_def d_model_of_def)
qed

section \<open>Facts about construction and shapes\<close>

lemma subscript_0: "subscript xs 0 = (case xs of [] \<Rightarrow> Inl IndexError | x # _ \<Rightarrow> Inr x)"
  by (cases xs) (simp_all add: subscript_def)

lemma subscript_1:
  "subscript xs 1 = (case xs of x # y # _ \<Rightarrow> Inr y | _ \<Rightarrow> Inl IndexError)"
proof (cases xs)
  case Nil
  then show ?thesis by (simp add: subscript_def)
next
  case (Cons x ys)
  then show ?thesis
    by (cases ys) (simp_all add: subscript_def)
qed

lemma subscript_0_Inr: "subscript xs 0 = Inr y \<longleftrightarrow> 1 \<le> length xs \<and> y = xs ! 0"
  by (cases xs) (auto simp add: subscript_0)

lemma subscript_1_Inr: "subscript xs 1 = Inr y \<longleftrightarrow> 2 \<le> length xs \<and> y = xs ! 1"
proof (cases xs)
  case Nil
  then show ?thesis by (simp add: subscript_1)
next
  case (Cons x ys)
  then show ?thesis by (cases ys) (auto simp add: subscript_1)
qed

lemma TransformerBlock_init_result:
  "TransformerBlock_init lib e h f r =
     (if h = 0 then Inl ZeroDivisionError
      else if constructs lib (MultiHeadAttention h (e div h)) \<and> constructs lib (Dense f Relu)
              \<and> constructs lib (Dense e Linear)
              \<and> constructs lib (LayerNormalization (1 / 10 ^ 6))
              \<and> constructs lib (Dropout r)
      then Inr \<lparr>embed_dim = e, num_heads = h, ff_dim = f, dropout_rate = r,
                attention = MultiHeadAttention h (e div h),
                ffn = [Dense f Relu, Dense e Linear],
                layernorm1 = LayerNormalization (1 / 10 ^ 6),
                layernorm2 = LayerNormalization (1 / 10 ^ 6),
                dropout1 = Dropout r, dropout2 = Dropout r\<rparr>
      else Inl ValueError)"
  by (simp add: TransformerBlock_init_def floordiv_def)

lemma TransformerBlock_init_Inr:
  assumes "TransformerBlock_init lib e h f r = Inr block"
  shows "block = \<lparr>embed_dim = e, num_heads = h, ff_dim = f, dropout_rate = r,
                attention = MultiHeadAttention h (e div h),
                ffn = [Dense f Relu, Dense e Linear],
                layernorm1 = LayerNormalization (1 / 10 ^ 6),
                layernorm2 = LayerNormalization (1 / 10 ^ 6),
                dropout1 = Dropout r, dropout2 = Dropout r\<rparr>"
    and "h \<noteq> 0"
  using assms by (auto simp add: TransformerBlock_init_result split: if_splits)

lemma broadcast_shapes_same: "broadcast_shapes s s = Inr s"
proof -
  have "broadcast_rev xs xs = Inr xs" for xs
    by (induction xs) simp_all
  then show ?thesis by (simp add: broadcast_shapes_def)
qed

lemma broadcast_shapes_batch: "broadcast_shapes [b, l, d] [l, d] = Inr [b, l, d]"
  by (simp add: broadcast_shapes_def)

lemma block_shape:
  assumes "TransformerBlock_init lib e h f r = Inr block"
  shows "TransformerBlock_call (shape_sublayers block) (Inr [b, l, e]) training = Inr [b, l, e]"
  unfolding TransformerBlock_init_Inr(1) [OF assms]
  by (simp add: TransformerBlock_call_def shape_sublayers_def on_shape_def on_shapes_def
      attention_output_shape_def broadcast_shapes_same Let_def)

lemma new_layer_Inr: "new_layer lib l = Inr y \<longleftrightarrow> constructs lib l \<and> y = Keras l"
  by (auto simp add: new_layer_def)

lemma build_asl_model_Inr:
  assumes "build_asl_model lib nf nl nc fs h d f r = Inr model"
  shows "accepts_input lib [nf, nl]" and "input_shape model = [nf, nl]"
    and "assemble lib (layer_steps lib nc fs h d f r) [unknown_batch, nf, nl]
           = Inr (pipeline model)"
proof -
  from assms show a: "accepts_input lib [nf, nl]"
    by (simp add: build_asl_model_def split: if_splits)
  with assms show "input_shape model = [nf, nl]"
    unfolding build_asl_model_def
    by (cases "assemble lib (layer_steps lib nc fs h d f r) [unknown_batch, nf, nl]") auto
  from assms a show "assemble lib (layer_steps lib nc fs h d f r) [unknown_batch, nf, nl]
           = Inr (pipeline model)"
    unfolding build_asl_model_def
    by (cases "assemble lib (layer_steps lib nc fs h d f r) [unknown_batch, nf, nl]") auto
qed


lemma assemble_Inr_steps:
  "assemble lib steps x = Inr ls \<Longrightarrow>
     list_all (\<lambda>step. \<not> isl (snd step)) steps \<and> ls = map (\<lambda>step. (fst step, projr (snd step))) steps"
proof (induction steps arbitrary: x ls)
  case Nil
  then show ?case by simp
next
  case (Cons step steps)
  obtain name made where step: "step = (name, made)" by (cases step)
  from Cons.prems step obtain l x' rest where
    made: "made = Inr l" and rest: "assemble lib steps x' = Inr rest" and ls: "ls = (name, l) # rest"
    by (auto split: sum.splits simp add: map_sum_def)
  from Cons.IH [OF rest] step made ls show ?case by simp
qed

lemma isl_new_layer: "isl (new_layer lib l) \<longleftrightarrow> \<not> constructs lib l"
  by (simp add: new_layer_def)

lemma projr_new_layer: "constructs lib l \<Longrightarrow> projr (new_layer lib l) = Keras l"
  by (simp add: new_layer_def)

lemma isl_filters_step:
  "isl (case subscript fs i of Inl e \<Rightarrow> Inl e | Inr filters \<Rightarrow> new_layer lib (g filters))
     \<longleftrightarrow> isl (subscript fs i) \<or> \<not> constructs lib (g (projr (subscript fs i)))"
  by (cases "subscript fs i") (simp_all add: isl_new_layer)

lemma projr_filters_step:
  "\<not> isl (subscript fs i) \<Longrightarrow> constructs lib (g (projr (subscript fs i))) \<Longrightarrow>
     projr (case subscript fs i of Inl e \<Rightarrow> Inl e | Inr filters \<Rightarrow> new_layer lib (g filters))
       = Keras (g (projr (subscript fs i)))"
  by (cases "subscript fs i") (simp_all add: projr_new_layer)

lemma isl_subscript_0: "isl (subscript fs 0) \<longleftrightarrow> length fs < 1"
  by (cases fs) (simp_all add: subscript_0)

lemma isl_subscript_1: "isl (subscript fs 1) \<longleftrightarrow> length fs < 2"
proof (cases fs)
  case Nil
  then show ?thesis by (simp add: subscript_1)
next
  case (Cons x ys)
  then show ?thesis by (cases ys) (simp_all add: subscript_1)
qed

lemma projr_subscript_0: "1 \<le> length fs \<Longrightarrow> projr (subscript fs 0) = fs ! 0"
  by (cases fs) (simp_all add: subscript_0)

lemma projr_subscript_1:
  assumes "2 \<le> length fs"
  shows "projr (subscript fs 1) = fs ! 1"
proof -
  from assms obtain x y ys where "fs = x # y # ys"
    by (cases fs; cases "tl fs") auto
  then show ?thesis by (simp add: subscript_1)
qed

lemma isl_block_step: "isl (map_sum id TransformerBlock made) \<longleftrightarrow> isl made"
  by (cases made) simp_all

lemma projr_block_step:
  "made = Inr block \<Longrightarrow> projr (map_sum id TransformerBlock made) = TransformerBlock block"
  by simp

lemma build_asl_model_layers:
  assumes "build_asl_model lib nf nl nc fs h d f r = Inr model"
  shows "\<exists>block. TransformerBlock_init lib d h f r = Inr block
         \<and> pipeline model =
             [(''conv1d_1'', Keras (Conv1D (fs ! 0) 3 Relu Same)),
              (''bn_1'', Keras BatchNormalization),
              (''conv1d_2'', Keras (Conv1D (fs ! 1) 3 Relu Same)),
              (''bn_2'', Keras BatchNormalization),
              (''maxpool'', Keras (MaxPooling1D 2)),
              (''projection'', Keras (Dense d Linear)),
              (''positional_encoding'',
                 PositionalEncoding \<lparr>layer_name = ''positional_encoding''\<rparr>),
              (''pos_dropout'', Keras (Dropout r)),
              (''transformer_block'', TransformerBlock block),
              (''global_avg_pool'', Keras GlobalAveragePooling1D),
              (''dense_1'', Keras (Dense 256 Relu)),
              (''dropout_1'', Keras (Dropout r)),
              (''dense_2'', Keras (Dense 128 Relu)),
              (''dropout_2'', Keras (Dropout r)),
              (''output'', Keras (Dense nc Softmax))]"
    and "2 \<le> length fs"
    and "constructs lib (Dropout r)"
    and "constructs lib (Dense nc Softmax)"
proof -
  note asm = build_asl_model_Inr(3) [OF assms]
  note steps = assemble_Inr_steps [OF asm, unfolded layer_steps_def]
  from steps [THEN conjunct1] have
    fs: "2 \<le> length fs"
    and c1: "constructs lib (Conv1D (projr (subscript fs 0)) 3 Relu Same)"
    and c2: "constructs lib (Conv1D (projr (subscript fs 1)) 3 Relu Same)"
    and bn: "constructs lib BatchNormalization"
    and mp: "constructs lib (MaxPooling1D 2)"
    and pr: "constructs lib (Dense d Linear)"
    and dr: "constructs lib (Dropout r)"
    and tb: "\<not> isl (TransformerBlock_init lib d h f r)"
    and ga: "constructs lib GlobalAveragePooling1D"
    and d1: "constructs lib (Dense 256 Relu)"
    and d2: "constructs lib (Dense 128 Relu)"
    and ou: "constructs lib (Dense nc Softmax)"
    by (simp_all add: isl_new_layer isl_filters_step isl_block_step isl_subscript_0
        isl_subscript_1)
  from tb obtain block where block: "TransformerBlock_init lib d h f r = Inr block"
    by (cases "TransformerBlock_init lib d h f r") auto
  from fs have s0: "\<not> isl (subscript fs 0)" and s1: "\<not> isl (subscript fs 1)"
    by (auto simp add: isl_subscript_0 isl_subscript_1)
  from fs have p0: "projr (subscript fs 0) = fs ! 0" and p1: "projr (subscript fs 1) = fs ! 1"
    by (simp_all add: projr_subscript_0 projr_subscript_1)
  have "pipeline model = [(''conv1d_1'', Keras (Conv1D (fs ! 0) 3 Relu Same)),
              (''bn_1'', Keras BatchNormalization),
              (''conv1d_2'', Keras (Conv1D (fs ! 1) 3 Relu Same)),
              (''bn_2'', Keras BatchNormalization),
              (''maxpool'', Keras (MaxPooling1D 2)),
              (''projection'', Keras (Dense d Linear)),
              (''positional_encoding'',
                 PositionalEncoding \<lparr>layer_name = ''positional_encoding''\<rparr>),
              (''pos_dropout'', Keras (Dropout r)),
              (''transformer_block'', TransformerBlock block),
              (''global_avg_pool'', Keras GlobalAveragePooling1D),
              (''dense_1'', Keras (Dense 256 Relu)),
              (''dropout_1'', Keras (Dropout r)),
              (''dense_2'', Keras (Dense 128 Relu)),
              (''dropout_2'', Keras (Dropout r)),
              (''output'', Keras (Dense nc Softmax))]"
    unfolding steps [THEN conjunct2]
    using c1 c2
    by (simp add: projr_new_layer projr_filters_step s0 s1 bn mp pr dr ga d1 d2 ou block
        p0 p1)
  with block show "\<exists>block. TransformerBlock_init lib d h f r = Inr block
         \<and> pipeline model =
             [(''conv1d_1'', Keras (Conv1D (fs ! 0) 3 Relu Same)),
              (''bn_1'', Keras BatchNormalization),
              (''conv1d_2'', Keras (Conv1D (fs ! 1) 3 Relu Same)),
              (''bn_2'', Keras BatchNormalization),
              (''maxpool'', Keras (MaxPooling1D 2)),
              (''projection'', Keras (Dense d Linear)),
              (''positional_encoding'',
                 PositionalEncoding \<lparr>layer_name = ''positional_encoding''\<rparr>),
              (''pos_dropout'', Keras (Dropout r)),
              (''transformer_block'', TransformerBlock block),
              (''global_avg_pool'', Keras GlobalAveragePooling1D),
              (''dense_1'', Keras (Dense 256 Relu)),
              (''dropout_1'', Keras (Dropout r)),
              (''dense_2'', Keras (Dense 128 Relu)),
              (''dropout_2'', Keras (Dropout r)),
              (''output'', Keras (Dense nc Softmax))]"
    by blast
  show "2 \<le> length fs" by (rule fs)
  show "constructs lib (Dropout r)" by (rule dr)
  show "constructs lib (Dense nc Softmax)" by (rule ou)
qed















lemma conv_same_length: "conv_output_length n k Same 1 = n"
  by (simp add: conv_output_length_def)

lemma pool_length: "conv_output_length n 2 Valid 2 = n div 2"
  by (simp add: conv_output_length_def)

lemmas build_eval = build_asl_model_def layer_steps_def checking_library_def new_layer_def
  call_layer_def subscript_0 subscript_1 TransformerBlock_init_result unknown_batch_def
  conv_same_length pool_length PositionalEncoding_shape_def broadcast_shapes_batch
  TransformerBlock_call_def shape_sublayers_def on_shape_def on_shapes_def
  attention_output_shape_def broadcast_shapes_same Let_def

lemma default_build_ok:
  "\<not> isl (build_asl_model checking_library 30 63 100 [64, 128] 4 128 256 (3 / 10))"
  by (simp add: build_eval)

lemma heads5_build_ok:
  "\<not> isl (build_asl_model checking_library 30 63 100 [64, 128] 5 128 256 (3 / 10))"
  by (simp add: build_eval)

lemma small_build_ok:
  "\<not> isl (build_asl_model checking_library 2 3 2 [8, 16] 2 4 8 (3 / 10))"
  by (simp add: build_eval)

lemma single_filter: "build_asl_model checking_library 30 63 100 [64] 4 128 256 (3 / 10) = Inl IndexError"
  by (simp add: build_eval)

lemma empty_filter: "build_asl_model checking_library 30 63 100 [] 4 128 256 (3 / 10) = Inl IndexError"
  by (simp add: build_eval)

section \<open>Facts about the classification head\<close>

lemma sum_list_exp_pos: "z \<noteq> [] \<Longrightarrow> 0 < sum_list (map exp (z :: real list))"
proof (induction z)
  case Nil
  then show ?case by simp
next
  case (Cons v z)
  have "0 \<le> sum_list (map exp z)"
    by (rule sum_list_nonneg) auto
  moreover have "0 < exp v" by simp
  ultimately show ?case by (simp add: add_pos_nonneg)
qed

lemma exp_le_sum_list_exp: "v \<in> set z \<Longrightarrow> exp v \<le> sum_list (map exp (z :: real list))"
proof (induction z)
  case Nil
  then show ?case by simp
next
  case (Cons w z)
  have nonneg: "0 \<le> sum_list (map exp z)"
    by (rule sum_list_nonneg) auto
  from Cons show ?case
  proof (cases "v = w")
    case True
    with nonneg show ?thesis by simp
  next
    case False
    with Cons have "exp v \<le> sum_list (map exp z)" by simp
    moreover have "0 \<le> exp w" by simp
    ultimately have "exp v \<le> exp w + sum_list (map exp z)" by linarith
    then show ?thesis by simp
  qed
qed

lemma sum_list_map_divide:
  "sum_list (map (\<lambda>v. f v / c) z) = sum_list (map f z) / (c :: real)"
  by (induction z) (simp_all add: add_divide_distrib)

lemma length_softmax: "length (softmax z) = length z"
  by (simp add: softmax_def)

lemma sum_list_softmax: "z \<noteq> [] \<Longrightarrow> sum_list (softmax z) = 1"
  using sum_list_exp_pos [of z] by (simp add: softmax_def sum_list_map_divide)

lemma softmax_range: "y \<in> set (softmax z) \<Longrightarrow> 0 \<le> y \<and> y \<le> 1"
proof -
  assume "y \<in> set (softmax z)"
  then obtain v where v: "v \<in> set z" and y: "y = exp v / sum_list (map exp z)"
    by (auto simp add: softmax_def)
  from v have "z \<noteq> []" by auto
  then have pos: "0 < sum_list (map exp z)" by (rule sum_list_exp_pos)
  from v have "exp v \<le> sum_list (map exp z)" by (rule exp_le_sum_list_exp)
  with pos show ?thesis unfolding y by simp
qed

lemma Dense_softmax_distribution:
  assumes "0 < n"
  shows "length (Dense_call n Softmax w b x) = nat n
       \<and> list_all (\<lambda>v. 0 \<le> v \<and> v \<le> 1) (Dense_call n Softmax w b x)
       \<and> sum_list (Dense_call n Softmax w b x) = 1"
proof -
  let ?z = "map (\<lambda>j. b ! j + (\<Sum>i < length x. x ! i * w ! i ! j)) [0..<nat n]"
  have call: "Dense_call n Softmax w b x = softmax ?z"
    by (simp add: Dense_call_def activation_call_def)
  from assms have ne: "?z \<noteq> []" by simp
  have "length (softmax ?z) = nat n" by (simp add: length_softmax)
  moreover have "list_all (\<lambda>v. 0 \<le> v \<and> v \<le> 1) (softmax ?z)"
    unfolding list_all_iff using softmax_range by blast
  moreover from ne have "sum_list (softmax ?z) = 1" by (rule sum_list_softmax)
  ultimately show ?thesis unfolding call by blast
qed

lemma predict_shape_ok:
  assumes "build_asl_model lib nf nl nc fs h d f r = Inr model"
  shows "predict_shape model [b, nf, nl] = Inr [b, nc]"
proof -
  from build_asl_model_layers(1) [OF assms] obtain block where
    block: "TransformerBlock_init lib d h f r = Inr block"
    and layers: "pipeline model =
             [(''conv1d_1'', Keras (Conv1D (fs ! 0) 3 Relu Same)),
              (''bn_1'', Keras BatchNormalization),
              (''conv1d_2'', Keras (Conv1D (fs ! 1) 3 Relu Same)),
              (''bn_2'', Keras BatchNormalization),
              (''maxpool'', Keras (MaxPooling1D 2)),
              (''projection'', Keras (Dense d Linear)),
              (''positional_encoding'',
                 PositionalEncoding \<lparr>layer_name = ''positional_encoding''\<rparr>),
              (''pos_dropout'', Keras (Dropout r)),
              (''transformer_block'', TransformerBlock block),
              (''global_avg_pool'', Keras GlobalAveragePooling1D),
              (''dense_1'', Keras (Dense 256 Relu)),
              (''dropout_1'', Keras (Dropout r)),
              (''dense_2'', Keras (Dense 128 Relu)),
              (''dropout_2'', Keras (Dropout r)),
              (''output'', Keras (Dense nc Softmax))]"
    by (elim exE conjE)
  note inp = build_asl_model_Inr(2) [OF assms]
  show ?thesis
    by (simp add: predict_shape_def inp layers on_shape_def conv_same_length pool_length
        PositionalEncoding_shape_def broadcast_shapes_batch block_shape [OF block])
qed

lemma example_value_output:
  assumes "build_asl_model lib nf nl nc fs h d f r = Inr model"
  shows "example_value num (map snd (pipeline model)) example =
           Dense_call nc Softmax (output_weights num) (output_bias num)
             (hidden_value num (butlast (map snd (pipeline model))) example)"
proof -
  from build_asl_model_layers(1) [OF assms] obtain block where
    layers: "pipeline model =
             [(''conv1d_1'', Keras (Conv1D (fs ! 0) 3 Relu Same)),
              (''bn_1'', Keras BatchNormalization),
              (''conv1d_2'', Keras (Conv1D (fs ! 1) 3 Relu Same)),
              (''bn_2'', Keras BatchNormalization),
              (''maxpool'', Keras (MaxPooling1D 2)),
              (''projection'', Keras (Dense d Linear)),
              (''positional_encoding'',
                 PositionalEncoding \<lparr>layer_name = ''positional_encoding''\<rparr>),
              (''pos_dropout'', Keras (Dropout r)),
              (''transformer_block'', TransformerBlock block),
              (''global_avg_pool'', Keras GlobalAveragePooling1D),
              (''dense_1'', Keras (Dense 256 Relu)),
              (''dropout_1'', Keras (Dropout r)),
              (''dense_2'', Keras (Dense 128 Relu)),
              (''dropout_2'', Keras (Dropout r)),
              (''output'', Keras (Dense nc Softmax))]"
    by (elim exE conjE)
  show ?thesis
    unfolding layers by (simp add: example_value_def)
qed

section \<open>The positional encoder\<close>

text \<open>
  C1.  The specification gives the positional matrix by interleaving: channel \<open>i\<close> holds
  the sine of the angle of channel \<open>i\<close> when \<open>i\<close> is even and its cosine when \<open>i\<close> is
  odd.  The code concatenates instead: all sines first, then all cosines
  (\<open>nth_pos_encoding\<close> above).  On an all-zero input of shape \<open>(1, 2, 4)\<close> the output at
  position 1 is \<open>sin 1, sin (1/100), cos 1, cos (1/100)\<close>, where the formula asks for
  \<open>sin 1, cos 1, sin (1/100), cos (1/100)\<close>; channel 1 differs.
\<close>

theorem PositionalEncoding_call_concatenates:
  "PositionalEncoding_call \<lparr>layer_name = ''positional_encoding''\<rparr> [[[0, 0, 0, 0], [0, 0, 0, 0]]]
     = [[[0, 0, 1, 1], [sin 1, sin (1 / 100), cos 1, cos (1 / 100)]]]
   \<and> map (interleaved_encoding 4 1) [0..<4] = [sin 1, cos 1, sin (1 / 100), cos (1 / 100)]
   \<and> PositionalEncoding_call \<lparr>layer_name = ''positional_encoding''\<rparr>
        [[[0, 0, 0, 0], [0, 0, 0, 0]]] ! 0 ! 1 ! 1 \<noteq> 0 + interleaved_encoding 4 1 1"
proof -
  have a: "PositionalEncoding_call \<lparr>layer_name = ''positional_encoding''\<rparr> [[[0, 0, 0, 0], [0, 0, 0, 0]]]
     = [[[0, 0, 1, 1], [sin 1, sin (1 / 100), cos 1, cos (1 / 100)]]]"
    by (simp add: PositionalEncoding_call_def positional_matrix_def seq_length_of_def
        d_model_of_def add_broadcast_def pos_encoding_def angles_def tf_range_def angle_def
        upt4 upt2 Let_def powr_half_10000)
  have b: "map (interleaved_encoding 4 1) [0..<4] = [sin 1, cos 1, sin (1 / 100), cos (1 / 100)]"
    by (simp add: interleaved_encoding_def angle_def upt4 powr_half_10000)
  have c: "interleaved_encoding 4 1 1 = cos 1"
    by (simp add: interleaved_encoding_def angle_def)
  show ?thesis
    unfolding a b c using sin_hundredth_neq_cos_one by simp
qed

text \<open>
  C7.  The positional matrix is a function of the shape of the input alone: two inputs
  with the same sequence length and width get the same matrix, whatever their entries
  and batch sizes and whichever layer object computes it; the matrix is
  \<open>pos_encoding l d\<close>.
\<close>

theorem positional_matrix_depends_on_shape_only:
  assumes "has_shape b l d x" and "has_shape b' l d y"
    and "0 < b" and "0 < b'" and "0 < l"
  shows "positional_matrix self x = pos_encoding l d
       \<and> positional_matrix self' y = positional_matrix self x"
  using has_shape_reads [OF assms(1) assms(3) assms(5)]
    has_shape_reads [OF assms(2) assms(4) assms(5)]
  by (simp add: positional_matrix_def)

theorem positional_matrix_depends_on_shape_only_witness:
  "has_shape 1 1 2 [[[1, 2]]] \<and> has_shape 2 1 2 [[[5, 7]], [[0, 3]]]
   \<and> positional_matrix \<lparr>layer_name = ''second''\<rparr> [[[5, 7]], [[0, 3]]]
       = positional_matrix \<lparr>layer_name = ''first''\<rparr> [[[1, 2]]]"
proof -
  have x: "has_shape 1 1 2 [[[1, 2]]]" by (simp add: has_shape_def)
  have y: "has_shape 2 1 2 [[[5, 7]], [[0, 3]]]" by (simp add: has_shape_def)
  show ?thesis
    using x y positional_matrix_depends_on_shape_only [OF x y, of "\<lparr>layer_name = ''first''\<rparr>"
        "\<lparr>layer_name = ''second''\<rparr>"]
    by simp
qed

section \<open>Construction\<close>

text \<open>
  With an embedding width of 128 and 5 heads, 128 is not a multiple of 5, and the
  block is constructed all the same, with key width 25; so is the model around it.
\<close>

theorem TransformerBlock_init_128_5_constructs:
  "(128 :: int) mod 5 \<noteq> 0
   \<and> TransformerBlock_init checking_library 128 5 256 (3 / 10) =
       Inr \<lparr>embed_dim = 128, num_heads = 5, ff_dim = 256, dropout_rate = 3 / 10,
            attention = MultiHeadAttention 5 25,
            ffn = [Dense 256 Relu, Dense 128 Linear],
            layernorm1 = LayerNormalization (1 / 10 ^ 6),
            layernorm2 = LayerNormalization (1 / 10 ^ 6),
            dropout1 = Dropout (3 / 10), dropout2 = Dropout (3 / 10)\<rparr>
   \<and> \<not> isl (build_asl_model checking_library 30 63 100 [64, 128] 5 128 256 (3 / 10))"
  using heads5_build_ok by (simp add: TransformerBlock_init_result checking_library_def)

text \<open>
  C2, as the code has it.  \<open>TransformerBlock.__init__\<close> has no divisibility check.
  With an embedding width that is not a multiple of a non-zero number of heads it
  computes the key width \<open>embed_dim // num_heads\<close> and, whenever the library accepts
  the sub-layers it constructs from these arguments, it returns the block.
\<close>

theorem TransformerBlock_init_has_no_divisibility_check:
  assumes "num_heads' \<noteq> 0"
    and "embed_dim' mod num_heads' \<noteq> 0"
    and "constructs lib (MultiHeadAttention num_heads' (embed_dim' div num_heads'))"
    and "constructs lib (Dense ff_dim' Relu)"
    and "constructs lib (Dense embed_dim' Linear)"
    and "constructs lib (LayerNormalization (1 / 10 ^ 6))"
    and "constructs lib (Dropout dropout_rate')"
  shows "TransformerBlock_init lib embed_dim' num_heads' ff_dim' dropout_rate' =
       Inr \<lparr>embed_dim = embed_dim', num_heads = num_heads', ff_dim = ff_dim',
            dropout_rate = dropout_rate',
            attention = MultiHeadAttention num_heads' (embed_dim' div num_heads'),
            ffn = [Dense ff_dim' Relu, Dense embed_dim' Linear],
            layernorm1 = LayerNormalization (1 / 10 ^ 6),
            layernorm2 = LayerNormalization (1 / 10 ^ 6),
            dropout1 = Dropout dropout_rate', dropout2 = Dropout dropout_rate'\<rparr>"
  using assms by (simp add: TransformerBlock_init_result)

theorem TransformerBlock_init_has_no_divisibility_check_witness:
  "(5 :: int) \<noteq> 0 \<and> (128 :: int) mod 5 \<noteq> 0
   \<and> constructs checking_library (MultiHeadAttention 5 (128 div 5))
   \<and> constructs checking_library (Dense 256 Relu)
   \<and> constructs checking_library (Dense 128 Linear)
   \<and> constructs checking_library (LayerNormalization (1 / 10 ^ 6))
   \<and> constructs checking_library (Dropout (3 / 10))
   \<and> attention (projr (TransformerBlock_init checking_library 128 5 256 (3 / 10)))
       = MultiHeadAttention 5 25"
proof -
  have a: "constructs checking_library (MultiHeadAttention 5 (128 div 5))"
    and b: "constructs checking_library (Dense 256 Relu)"
    and c: "constructs checking_library (Dense 128 Linear)"
    and d: "constructs checking_library (LayerNormalization (1 / 10 ^ 6))"
    and e: "constructs checking_library (Dropout (3 / 10))"
    by (simp_all add: checking_library_def)
  have h: "(5 :: int) \<noteq> 0" and m: "(128 :: int) mod 5 \<noteq> 0" by simp_all
  from TransformerBlock_init_has_no_divisibility_check [OF h m a b c d e] a b c d e
  show ?thesis by simp
qed




section \<open>Forward evaluation\<close>

text \<open>
  A configuration with the single filter width 64 satisfies every invariant of the
  specification, and construction fails on it at \<open>cnn_filters[1]\<close>: there is no model
  to evaluate.
\<close>

theorem single_filter_width_builds_no_model:
  "valid_configuration 100 [64] 4 128 (3 / 10)
   \<and> build_asl_model checking_library 30 63 100 [64] 4 128 256 (3 / 10) = Inl IndexError"
  by (simp add: valid_configuration_def build_eval)

text \<open>
  C4, as the code has it.  For every valid configuration on which \<open>build_asl_model\<close>
  returns a model and every batch of at least one example, each of the declared shape,
  forward evaluation returns one row per example; every row has \<open>num_classes\<close>
  entries, all in \<open>[0, 1]\<close>, that sum to 1 within \<open>1e-5\<close>; the output shape is
  \<open>(batch, num_classes)\<close>.
\<close>

theorem forward_output_is_distribution:
  assumes "build_asl_model lib num_frames num_landmarks num_classes cnn_filters
             transformer_heads transformer_dim ff_dim' dropout_rate' = Inr model"
    and "valid_configuration num_classes cnn_filters transformer_heads transformer_dim
           dropout_rate'"
    and "1 \<le> length batch"
    and "list_all (example_fits [num_frames, num_landmarks]) batch"
  shows "\<exists>rows. predict num model batch = Inr rows
           \<and> length rows = length batch
           \<and> list_all (\<lambda>row. length row = nat num_classes
                             \<and> list_all (\<lambda>v. 0 \<le> v \<and> v \<le> 1) row
                             \<and> \<bar>sum_list row - 1\<bar> \<le> 1 / 10 ^ 5) rows
           \<and> predict_shape model [int (length batch), num_frames, num_landmarks]
               = Inr [int (length batch), num_classes]"
proof -
  from assms(2) have classes: "0 < num_classes"
    by (simp add: valid_configuration_def)
  let ?row = "example_value num (map snd (pipeline model))"
  have fits: "list_all (example_fits (input_shape model)) batch"
    using assms(4) by (simp add: build_asl_model_Inr(2) [OF assms(1)])
  then have rows: "predict num model batch = Inr (map ?row batch)"
    by (simp add: predict_def)
  have row: "length (?row example) = nat num_classes
             \<and> list_all (\<lambda>v. 0 \<le> v \<and> v \<le> 1) (?row example)
             \<and> \<bar>sum_list (?row example) - 1\<bar> \<le> 1 / 10 ^ 5" for example
    unfolding example_value_output [OF assms(1)]
    using Dense_softmax_distribution [OF classes] by simp
  then have "list_all (\<lambda>row. length row = nat num_classes
                             \<and> list_all (\<lambda>v. 0 \<le> v \<and> v \<le> 1) row
                             \<and> \<bar>sum_list row - 1\<bar> \<le> 1 / 10 ^ 5) (map ?row batch)"
    by (simp add: list_all_iff)
  with rows predict_shape_ok [OF assms(1)] show ?thesis by simp
qed

theorem forward_output_is_distribution_witness:
  "build_asl_model checking_library 2 3 2 [8, 16] 2 4 8 (3 / 10)
     = Inr (projr (build_asl_model checking_library 2 3 2 [8, 16] 2 4 8 (3 / 10)))
   \<and> valid_configuration 2 [8, 16] 2 4 (3 / 10)
   \<and> 1 \<le> length [[[1, 2, 3], [4, 5, 6 :: real]]]
   \<and> list_all (example_fits [2, 3]) [[[1, 2, 3], [4, 5, 6]]]
   \<and> predict \<lparr>hidden_value = (\<lambda>layers example. [1]), output_weights = [[1, 0]],
               output_bias = [0, 0]\<rparr>
        (projr (build_asl_model checking_library 2 3 2 [8, 16] 2 4 8 (3 / 10)))
        [[[1, 2, 3], [4, 5, 6]]]
       = Inr [softmax [1, 0]]
   \<and> length (softmax [1, 0]) = 2
   \<and> list_all (\<lambda>v. 0 \<le> v \<and> v \<le> 1) (softmax [1, 0])
   \<and> \<bar>sum_list (softmax [1, 0]) - 1\<bar> \<le> 1 / 10 ^ 5"
proof -
  let ?num = "\<lparr>hidden_value = (\<lambda>layers example. [1 :: real]), output_weights = [[1, 0]],
               output_bias = [0, 0]\<rparr>"
  let ?model = "projr (build_asl_model checking_library 2 3 2 [8, 16] 2 4 8 (3 / 10))"
  have b: "build_asl_model checking_library 2 3 2 [8, 16] 2 4 8 (3 / 10) = Inr ?model"
    using small_build_ok by simp
  have v: "valid_configuration 2 [8, 16] 2 4 (3 / 10)"
    by (simp add: valid_configuration_def)
  have l: "1 \<le> length [[[1, 2, 3], [4, 5, 6 :: real]]]" by simp
  have f: "list_all (example_fits [2, 3]) [[[1, 2, 3], [4, 5, 6]]]"
    by (simp add: example_fits_def)
  have p: "predict ?num ?model [[[1, 2, 3], [4, 5, 6]]] = Inr [softmax [1, 0]]"
    by (simp add: build_eval predict_def example_fits_def example_value_def Dense_call_def
        activation_call_def upt2)
  from forward_output_is_distribution [OF b v l f, of ?num] p b v f
  show ?thesis by simp
qed

text \<open>
  C5.  A constructed block maps an input of shape \<open>(batch, l, embed_dim)\<close> to an
  output of the same shape, whatever the mode flag (omitted, inference or training).
\<close>

theorem TransformerBlock_call_preserves_shape:
  assumes "TransformerBlock_init lib embed_dim' num_heads' ff_dim' dropout_rate' = Inr block"
  shows "TransformerBlock_call (shape_sublayers block) (Inr [batch, l, embed_dim block]) training
           = Inr [batch, l, embed_dim block]"
proof -
  from TransformerBlock_init_Inr(1) [OF assms] have "embed_dim block = embed_dim'"
    by simp
  with block_shape [OF assms] show ?thesis by simp
qed

theorem TransformerBlock_call_preserves_shape_witness:
  "TransformerBlock_init checking_library 128 4 256 (3 / 10) =
       Inr \<lparr>embed_dim = 128, num_heads = 4, ff_dim = 256, dropout_rate = 3 / 10,
            attention = MultiHeadAttention 4 32,
            ffn = [Dense 256 Relu, Dense 128 Linear],
            layernorm1 = LayerNormalization (1 / 10 ^ 6),
            layernorm2 = LayerNormalization (1 / 10 ^ 6),
            dropout1 = Dropout (3 / 10), dropout2 = Dropout (3 / 10)\<rparr>
   \<and> TransformerBlock_call
        (shape_sublayers \<lparr>embed_dim = 128, num_heads = 4, ff_dim = 256, dropout_rate = 3 / 10,
            attention = MultiHeadAttention 4 32,
            ffn = [Dense 256 Relu, Dense 128 Linear],
            layernorm1 = LayerNormalization (1 / 10 ^ 6),
            layernorm2 = LayerNormalization (1 / 10 ^ 6),
            dropout1 = Dropout (3 / 10), dropout2 = Dropout (3 / 10)\<rparr>)
        (Inr [2, 15, 128]) (Some True) = Inr [2, 15, 128]"
proof -
  have i: "TransformerBlock_init checking_library 128 4 256 (3 / 10) =
       Inr \<lparr>embed_dim = 128, num_heads = 4, ff_dim = 256, dropout_rate = 3 / 10,
            attention = MultiHeadAttention 4 32,
            ffn = [Dense 256 Relu, Dense 128 Linear],
            layernorm1 = LayerNormalization (1 / 10 ^ 6),
            layernorm2 = LayerNormalization (1 / 10 ^ 6),
            dropout1 = Dropout (3 / 10), dropout2 = Dropout (3 / 10)\<rparr>"
    by (simp add: TransformerBlock_init_result checking_library_def)
  from TransformerBlock_call_preserves_shape [OF i, of 2 15 "Some True"] i
  show ?thesis by simp
qed

text \<open>
  C6.  In a constructed model the local feature extractor is two convolutions of
  kernel width 3 with boundary padding, each followed by batch normalisation, and a
  max-pooling of window 2.  Each convolution stage keeps the sequence length \<open>n\<close>, and
  the whole extractor maps it to \<open>n div 2\<close>; 30 is mapped to 15.
\<close>

theorem local_feature_extractor_lengths:
  assumes "build_asl_model lib num_frames num_landmarks num_classes cnn_filters transformer_heads
             transformer_dim ff_dim' dropout_rate' = Inr model"
  shows "local_feature_extractor model =
           [Keras (Conv1D (cnn_filters ! 0) 3 Relu Same), Keras BatchNormalization,
            Keras (Conv1D (cnn_filters ! 1) 3 Relu Same), Keras BatchNormalization,
            Keras (MaxPooling1D 2)]
       \<and> run_layers (take 2 (local_feature_extractor model)) (Inr [batch, n, c])
           = Inr [batch, n, cnn_filters ! 0]
       \<and> run_layers (take 4 (local_feature_extractor model)) (Inr [batch, n, c])
           = Inr [batch, n, cnn_filters ! 1]
       \<and> run_layers (local_feature_extractor model) (Inr [batch, n, c])
           = Inr [batch, n div 2, cnn_filters ! 1]"
proof -
  from build_asl_model_layers(1) [OF assms] obtain block where
    "pipeline model =
             [(''conv1d_1'', Keras (Conv1D (cnn_filters ! 0) 3 Relu Same)),
              (''bn_1'', Keras BatchNormalization),
              (''conv1d_2'', Keras (Conv1D (cnn_filters ! 1) 3 Relu Same)),
              (''bn_2'', Keras BatchNormalization),
              (''maxpool'', Keras (MaxPooling1D 2)),
              (''projection'', Keras (Dense transformer_dim Linear)),
              (''positional_encoding'',
                 PositionalEncoding \<lparr>layer_name = ''positional_encoding''\<rparr>),
              (''pos_dropout'', Keras (Dropout dropout_rate')),
              (''transformer_block'', TransformerBlock block),
              (''global_avg_pool'', Keras GlobalAveragePooling1D),
              (''dense_1'', Keras (Dense 256 Relu)),
              (''dropout_1'', Keras (Dropout dropout_rate')),
              (''dense_2'', Keras (Dense 128 Relu)),
              (''dropout_2'', Keras (Dropout dropout_rate')),
              (''output'', Keras (Dense num_classes Softmax))]"
    by (elim exE conjE)
  then have layers: "local_feature_extractor model =
           [Keras (Conv1D (cnn_filters ! 0) 3 Relu Same), Keras BatchNormalization,
            Keras (Conv1D (cnn_filters ! 1) 3 Relu Same), Keras BatchNormalization,
            Keras (MaxPooling1D 2)]"
    by (simp add: local_feature_extractor_def)
  show ?thesis
    unfolding layers
    by (simp add: on_shape_def conv_same_length pool_length)
qed

theorem local_feature_extractor_lengths_witness:
  "build_asl_model checking_library 30 63 100 [64, 128] 4 128 256 (3 / 10) =
     Inr (projr (build_asl_model checking_library 30 63 100 [64, 128] 4 128 256 (3 / 10)))
   \<and> run_layers
        (local_feature_extractor
           (projr (build_asl_model checking_library 30 63 100 [64, 128] 4 128 256 (3 / 10))))
        (Inr [2, 30, 63]) = Inr [2, 15, 128]"
proof -
  have b: "build_asl_model checking_library 30 63 100 [64, 128] 4 128 256 (3 / 10) =
     Inr (projr (build_asl_model checking_library 30 63 100 [64, 128] 4 128 256 (3 / 10)))"
    using default_build_ok by simp
  from local_feature_extractor_lengths [OF b, of 2 30 63]
  have "run_layers
        (local_feature_extractor
           (projr (build_asl_model checking_library 30 63 100 [64, 128] 4 128 256 (3 / 10))))
        (Inr [2, 30, 63]) = Inr [2, 30 div 2, [64, 128] ! 1]"
    by (elim conjE)
  with b show ?thesis by simp
qed

text \<open>
  C8.  A batch whose frame count differs from \<open>num_frames\<close> or whose landmark width
  differs from \<open>num_landmarks\<close> is refused with \<open>ShapeMismatchError\<close>, and no output
  shape is produced; so is a width of 60 against 63.
\<close>

theorem predict_rejects_mismatched_input:
  assumes "build_asl_model lib num_frames num_landmarks num_classes cnn_filters transformer_heads
             transformer_dim ff_dim' dropout_rate' = Inr model"
    and "frames \<noteq> num_frames \<or> width \<noteq> num_landmarks"
  shows "predict_shape model [batch, frames, width] = Inl ShapeMismatchError"
  using assms(2) by (auto simp add: predict_shape_def build_asl_model_Inr(2) [OF assms(1)])

theorem predict_rejects_mismatched_input_witness:
  "build_asl_model checking_library 30 63 100 [64, 128] 4 128 256 (3 / 10) =
     Inr (projr (build_asl_model checking_library 30 63 100 [64, 128] 4 128 256 (3 / 10)))
   \<and> (60 :: int) \<noteq> 63
   \<and> predict_shape
        (projr (build_asl_model checking_library 30 63 100 [64, 128] 4 128 256 (3 / 10)))
        [2, 30, 60]
       = Inl ShapeMismatchError"
proof -
  have b: "build_asl_model checking_library 30 63 100 [64, 128] 4 128 256 (3 / 10) =
     Inr (projr (build_asl_model checking_library 30 63 100 [64, 128] 4 128 256 (3 / 10)))"
    using default_build_ok by simp
  have w: "(30 :: int) \<noteq> 30 \<or> (60 :: int) \<noteq> 63" by simp
  from predict_rejects_mismatched_input [OF b w, of 2] b show ?thesis by simp
qed

section \<open>Compilation\<close>

text \<open>
  C9.  \<open>compile_model\<close> declares the Adam optimizer with the given learning rate,
  the categorical cross-entropy loss, and exactly two metrics, which resolve to top-1
  and top-5 categorical accuracy; it leaves the layers and the input shape of the
  model as they were.
\<close>

theorem compile_model_declaration:
  "compiled (compile_model model learning_rate) =
     Some \<lparr>optimizer = Adam learning_rate, loss = ''categorical_crossentropy'',
           metrics = [MetricName ''accuracy'', TopKCategoricalAccuracy 5 ''top5_accuracy'']\<rparr>
   \<and> map (resolve_metric ''categorical_crossentropy'')
        [MetricName ''accuracy'', TopKCategoricalAccuracy 5 ''top5_accuracy''] = [Some 1, Some 5]
   \<and> pipeline (compile_model model learning_rate) = pipeline model
   \<and> input_shape (compile_model model learning_rate) = input_shape model"
  by (simp add: compile_model_def resolve_metric_def)

section \<open>The default mode of the attention block\<close>

text \<open>
  C10.  A call of the block that omits the mode flag equals the call in inference
  mode: both dropout layers are the identity, and the result is layer normalisation
  of the residual sums with no dropout in between.
\<close>

theorem TransformerBlock_call_default_is_inference:
  assumes "TransformerBlock_init lib' embed_dim' num_heads' ff_dim' dropout_rate' = Inr block"
  shows "TransformerBlock_call (value_sublayers lib lib_attention mask1 mask2 block) inputs None
           = TransformerBlock_call (value_sublayers lib lib_attention mask1 mask2 block) inputs
               (Some False)
       \<and> TransformerBlock_call (value_sublayers lib lib_attention mask1 mask2 block) inputs None
           = (let x = lib (layernorm1 block)
                        (tensor_add inputs (lib_attention (attention block) inputs inputs))
              in lib (layernorm2 block) (tensor_add x (fold lib (ffn block) x)))
       \<and> call_dropout1 (value_sublayers lib lib_attention mask1 mask2 block) t False = t
       \<and> call_dropout2 (value_sublayers lib lib_attention mask1 mask2 block) t False = t"
proof -
  from TransformerBlock_init_Inr(1) [OF assms]
  have "dropout1 block = Dropout dropout_rate'" "dropout2 block = Dropout dropout_rate'"
    by simp_all
  then show ?thesis
    by (simp add: TransformerBlock_call_def value_sublayers_def keras_call_def Dropout_call_def
        Let_def)
qed

theorem TransformerBlock_call_default_is_inference_witness:
  "TransformerBlock_init checking_library 128 4 256 (3 / 10) =
     Inr (projr (TransformerBlock_init checking_library 128 4 256 (3 / 10)))
   \<and> TransformerBlock_call
        (value_sublayers (\<lambda>layer x. x) (\<lambda>layer q v. q) [[[False]]] [[[False]]]
           (projr (TransformerBlock_init checking_library 128 4 256 (3 / 10)))) [[[1]]] None
       = [[[4]]]
   \<and> TransformerBlock_call
        (value_sublayers (\<lambda>layer x. x) (\<lambda>layer q v. q) [[[False]]] [[[False]]]
           (projr (TransformerBlock_init checking_library 128 4 256 (3 / 10)))) [[[1]]]
        (Some True)
       = [[[1]]]"
proof -
  have i: "TransformerBlock_init checking_library 128 4 256 (3 / 10) =
     Inr (projr (TransformerBlock_init checking_library 128 4 256 (3 / 10)))"
    by (simp add: TransformerBlock_init_result checking_library_def)
  have t: "TransformerBlock_call
        (value_sublayers (\<lambda>layer x. x) (\<lambda>layer q v. q) [[[False]]] [[[False]]]
           (projr (TransformerBlock_init checking_library 128 4 256 (3 / 10)))) [[[1]]]
        (Some True)
       = [[[1]]]"
    by (simp add: TransformerBlock_init_result checking_library_def TransformerBlock_call_def
        value_sublayers_def keras_call_def Dropout_call_def tensor_add_def Let_def)
  note call = TransformerBlock_call_default_is_inference [OF i, of "\<lambda>layer x. x"
      "\<lambda>layer q v. q" "[[[False]]]" "[[[False]]]" "[[[1]]]"]
  from call [THEN conjunct2, THEN conjunct1]
  have "TransformerBlock_call
        (value_sublayers (\<lambda>layer x. x) (\<lambda>layer q v. q) [[[False]]] [[[False]]]
           (projr (TransformerBlock_init checking_library 128 4 256 (3 / 10)))) [[[1]]] None
       = [[[4]]]"
    by (simp add: TransformerBlock_init_result checking_library_def tensor_add_def Let_def)
  with i t show ?thesis by simp
qed

end
